theory Spec2Isabelle
  imports Main "HOL-Library.Word"
begin

section \<open>Go values: panics, strings, paths\<close>

text \<open>
  A Go call either returns or panics. Both planner and steps contain expressions that can
  panic (a slice expression out of range, a field read through a nil pointer), so every
  function that reaches one returns an \<open>outcome\<close>.
\<close>

datatype panic = SliceBoundsOutOfRange | NilPointerDereference

datatype 'a outcome = Panics panic | Returns 'a

text \<open>Go strings are byte sequences, as \<open>string\<close> is here. \<open>strings.Join\<close>:\<close>

fun stringsJoin :: "string list \<Rightarrow> string \<Rightarrow> string" where
  "stringsJoin [] sep = []"
| "stringsJoin [e] sep = e"
| "stringsJoin (e # es) sep = e @ sep @ stringsJoin es sep"

text \<open>The verb \<open>%d\<close> of \<open>fmt.Sprintf\<close> on a signed integer.\<close>

definition digit :: "nat \<Rightarrow> char" where
  "digit d = ''0123456789abcdef'' ! d"

fun showNat :: "nat \<Rightarrow> string" where
  "showNat n = (if n < 10 then [digit n] else showNat (n div 10) @ [digit (n mod 10)])"

definition showInt :: "int \<Rightarrow> string" where
  "showInt i = (if i < 0 then ''-'' @ showNat (nat (- i)) else showNat (nat i))"

text \<open>\<open>strconv.FormatUint(i, 16)\<close> on a 64-bit unsigned integer.\<close>

fun hexNat :: "nat \<Rightarrow> string" where
  "hexNat n = (if n < 16 then [digit n] else hexNat (n div 16) @ [digit (n mod 16)])"

definition FormatUint16 :: "64 word \<Rightarrow> string" where
  "FormatUint16 i = hexNat (unat i)"

text \<open>
  \<open>path/filepath\<close> of the Go standard library, on a system whose separator is \<open>/\<close>:
  \<open>Clean\<close> drops empty and \<open>.\<close> elements, resolves \<open>..\<close> against the element before it
  (and drops it at the root), and answers \<open>.\<close> for an empty result; \<open>Join\<close> starts at the
  first non-empty element, joins the rest with the separator and cleans the result.
\<close>

fun splitSep :: "string \<Rightarrow> string list" where
  "splitSep [] = [[]]"
| "splitSep (c # cs) =
     (if c = CHR ''/'' then [] # splitSep cs
      else (case splitSep cs of [] \<Rightarrow> [[c]] | e # es \<Rightarrow> (c # e) # es))"

fun cleanElems :: "bool \<Rightarrow> string list \<Rightarrow> string list \<Rightarrow> string list" where
  "cleanElems rooted out [] = rev out"
| "cleanElems rooted out (e # es) =
     (if e = [] \<or> e = ''.'' then cleanElems rooted out es
      else if e = ''..'' then
        (if out \<noteq> [] \<and> hd out \<noteq> ''..'' then cleanElems rooted (tl out) es
         else if \<not> rooted then cleanElems rooted (e # out) es
         else cleanElems rooted out es)
      else cleanElems rooted (e # out) es)"

definition Clean :: "string \<Rightarrow> string" where
  "Clean path =
     (if path = [] then ''.''
      else
        (let rooted = (hd path = CHR ''/'');
             out = (if rooted then ''/'' else []) @ stringsJoin (cleanElems rooted [] (splitSep path)) ''/''
         in if out = [] then ''.'' else out))"

definition Join :: "string list \<Rightarrow> string" where
  "Join elem =
     (case dropWhile (\<lambda>e. e = []) elem of
        [] \<Rightarrow> []
      | e # es \<Rightarrow> Clean (stringsJoin (e # es) ''/''))"

text \<open>
  A Go map is modelled as an association list in which the first binding of a key is the
  one the map holds. \<open>range\<close> over a map visits every key once, in an order the language
  leaves open: \<open>rangeMap\<close> visits the keys in the order of their first bindings, so the order
  of the list stands for the order of one iteration.
\<close>

definition rangeMap :: "('k \<times> 'v) list \<Rightarrow> ('k \<times> 'v) list" where
  "rangeMap kvs = foldr (\<lambda>kv acc. kv # filter (\<lambda>kv'. fst kv' \<noteq> fst kv) acc) kvs []"

section \<open>The API types (package \<open>v1\<close>) and the workspace\<close>

text \<open>
  The declarations of package \<open>v1\<close> are not part of the sources at hand. The records below
  hold the fields that the planner and the steps read, under the names the code uses.
\<close>

datatype StepState = StateInitial | StateRunning | StateReady | StateError

record StepStatus =
  Hash :: string
  State :: StepState
  Msg :: string

record EnvironmentStatus =
  Steps :: "(string \<times> StepStatus) list"

record AZSpec =
  Subscription :: string
  ResourceGroup :: string

record StateSpec =
  Access :: string

text \<open>
  Modelled from the spec: the declaration of the budget (\<open>v1.InfraBudget\<close>) is missing.
  The spec calls the limits optional "caps on the number of objects an apply is allowed to
  add, change, or delete"; a limit is a number of objects, \<open>None\<close> is the nil pointer. The
  code converts a limit with \<open>int(*b.AddLimit)\<close> before it compares, which is \<open>int\<close> here.
\<close>

record InfraBudget =
  AddLimit :: "nat option"
  UpdateLimit :: "nat option"
  DeleteLimit :: "nat option"

record InfraSpec =
  Main :: string
  EnvName :: string
  AZ :: AZSpec
  State :: StateSpec
  Budget :: InfraBudget

record ClusterInfraSpec =
  Version :: string

record ClusterAddonSpec =
  MKV :: string
  Jobs :: "string list"
  X :: "(string \<times> string) list"

record ClusterSpec =
  Name :: string
  Infra :: ClusterInfraSpec
  Addons :: ClusterAddonSpec

record NamespacedName =
  Namespace :: string
  Name :: string

record Workspace =
  Path :: string
  Hash :: string
  Synced :: bool

text \<open>\<open>Sourcer.Workspace(nsn, name)\<close> returns a workspace and \<open>ok\<close>; \<open>None\<close> is \<open>ok == false\<close>.\<close>

type_synonym Sourcer = "NamespacedName \<Rightarrow> string \<Rightarrow> Workspace option"

section \<open>Steps (package \<open>step\<close>)\<close>

datatype Type = TypeInfra | TypeDestroy | TypeAKSPool | TypeKubeconfig | TypeAKSAddonPreflight | TypeAddons

record ID =
  Type :: Type
  Namespace :: string
  Name :: string
  ClusterName :: string

text \<open>
  \<open>Metaa\<close> is embedded in every step struct; the step records extend it, so that
  \<open>st.State\<close> of the source is \<open>Metaa.State st\<close> on any of them. The clients a step struct
  holds (\<open>Cloud\<close>, \<open>Terraform\<close>, \<open>Kubectl\<close>, \<open>Addon\<close>) are the planner's own and are left out
  of the records; of the Azure client the subscription set on it is kept.
\<close>

record Metaa =
  ID :: ID
  Hash :: string
  State :: StepState
  Msg :: string

record InfraValues =
  Infra :: InfraSpec
  Clusters :: "ClusterSpec list"

record InfraStep = Metaa +
  Values :: InfraValues
  SourcePath :: string
  Added :: int
  Changed :: int
  Deleted :: int

record DestroyStep = Metaa +
  Values :: InfraValues
  SourcePath :: string
  Added :: int
  Changed :: int
  Deleted :: int

record AKSPoolStep = Metaa +
  ResourceGroup :: string
  Cluster :: string
  Version :: string
  Azure :: string

record KubeconfigStep = Metaa +
  TFPath :: string
  ClusterName :: string
  KCPath :: string
  Access :: string

record AKSAddonPreflightStep = Metaa +
  KCPath :: string

record AddonStep = Metaa +
  SourcePath :: string
  KCPath :: string
  MasterVaultPath :: string
  JobPaths :: "string list"
  Values :: "(string \<times> string) list"

text \<open>The interface \<open>step.Step\<close> is the closed sum of its six implementations.\<close>

datatype Step =
    Infra InfraStep
  | Destroy DestroyStep
  | AKSPool AKSPoolStep
  | Kubeconfig KubeconfigStep
  | AKSAddonPreflight AKSAddonPreflightStep
  | Addon AddonStep

fun Meta :: "Step \<Rightarrow> Metaa" where
  "Meta (Infra st) = Metaa.truncate st"
| "Meta (Destroy st) = Metaa.truncate st"
| "Meta (AKSPool st) = Metaa.truncate st"
| "Meta (Kubeconfig st) = Metaa.truncate st"
| "Meta (AKSAddonPreflight st) = Metaa.truncate st"
| "Meta (Addon st) = Metaa.truncate st"

text \<open>
  Modelled from the spec: \<open>ID.ShortName\<close> and the values of the \<open>Type\<close> constants are
  missing from the sources. The spec gives the format \<open><type>[.<clusterName>]\<close> and the
  type names \<open>Infra\<close>, \<open>Destroy\<close>, \<open>AKSPool\<close>, \<open>Kubeconfig\<close>, \<open>AKSAddonPreflight\<close>, \<open>Addons\<close>.
\<close>

fun typeString :: "Type \<Rightarrow> string" where
  "typeString TypeInfra = ''Infra''"
| "typeString TypeDestroy = ''Destroy''"
| "typeString TypeAKSPool = ''AKSPool''"
| "typeString TypeKubeconfig = ''Kubeconfig''"
| "typeString TypeAKSAddonPreflight = ''AKSAddonPreflight''"
| "typeString TypeAddons = ''Addons''"

definition ShortName :: "ID \<Rightarrow> string" where
  "ShortName i =
     (if ID.ClusterName i = [] then typeString (ID.Type i)
      else typeString (ID.Type i) @ ''.'' @ ID.ClusterName i)"

section \<open>The planner (package \<open>plan\<close>)\<close>

type_synonym plan = "Step list"

text \<open>
  The arguments of \<open>Planner.hash\<close> are \<open>interface{}\<close> values; \<open>hashArg\<close> is the sum of the
  types the plan builders pass.
\<close>

datatype hashArg =
    HString string
  | HInfraSpec InfraSpec
  | HClusterInfras "ClusterInfraSpec list"
  | HStrings "string list"
  | HValues "(string \<times> string) list"

datatype error = ExpectedPlanFor NamespacedName | VaultRef string

text \<open>
  The planner struct. \<open>hashstructure\<close> is the library function \<open>hashstructure.Hash\<close>
  (an error text or a 64-bit hash) and \<open>vault\<close> is \<open>vaultInfraValues\<close> with the planner's
  cloud client (an error text or the spec with its secret references replaced); neither
  is part of the sources at hand and both are arbitrary functions here. The mutex of the
  struct guards \<open>currentPlans\<close> and has no counterpart in a sequential model, nor has the
  logger.
\<close>

record Planner =
  AllowedStepTypes :: "Type set"
  currentPlans :: "NamespacedName \<rightharpoonup> plan"
  hashstructure :: "hashArg list \<Rightarrow> string + 64 word"
  vault :: "InfraSpec \<Rightarrow> string + InfraSpec"

definition vaultInfraValues :: "Planner \<Rightarrow> InfraSpec \<Rightarrow> string + InfraSpec" where
  "vaultInfraValues p ispec = vault p ispec"

definition hash :: "Planner \<Rightarrow> hashArg list \<Rightarrow> string" where
  "hash p args =
     (case hashstructure p args of
        Inl err \<Rightarrow> ''hasherror''
      | Inr i \<Rightarrow> FormatUint16 i)"

definition prefixedClusterName :: "string \<Rightarrow> string \<Rightarrow> string \<Rightarrow> string outcome" where
  "prefixedClusterName resource env name =
     (if length env < 1 then Panics SliceBoundsOutOfRange
      else
        (let t = drop (length env - 1) env
         in Returns (t @ resource @ ''001'' @ env @ ''-'' @ name)))"

definition stepFilter :: "EnvironmentStatus \<Rightarrow> StepState \<Rightarrow> string list" where
  "stepFilter status state =
     map fst (filter (\<lambda>(n, s). StepStatus.State s = state) (rangeMap (Steps status)))"

definition planFilter :: "plan \<Rightarrow> Type set \<Rightarrow> plan" where
  "planFilter pl allowed =
     (if allowed = {} then pl
      else filter (\<lambda>v. ID.Type (Metaa.ID (Meta v)) \<in> allowed) pl)"

definition stepMeta :: "NamespacedName \<Rightarrow> string \<Rightarrow> Type \<Rightarrow> string \<Rightarrow> Metaa" where
  "stepMeta nsn clusterName typ h =
     \<lparr>Metaa.ID = \<lparr>ID.Type = typ, ID.Namespace = NamespacedName.Namespace nsn,
                  ID.Name = NamespacedName.Name nsn, ID.ClusterName = clusterName\<rparr>,
      Metaa.Hash = h, Metaa.State = StateInitial, Metaa.Msg = []\<rparr>"

definition buildDestroyPlan ::
  "Planner \<Rightarrow> NamespacedName \<Rightarrow> Sourcer \<Rightarrow> InfraSpec \<Rightarrow> ClusterSpec list \<Rightarrow> plan \<times> bool" where
  "buildDestroyPlan p nsn src ispec cspec =
     (case src nsn [] of
        None \<Rightarrow> ([], False)
      | Some tfw \<Rightarrow>
          if Workspace.Hash tfw = [] then ([], False)
          else
            (let tfPath = Join [Workspace.Path tfw, InfraSpec.Main ispec];
                 h = hash p [HString (Workspace.Hash tfw)];
                 pl = [] @ [Destroy (Metaa.extend (stepMeta nsn [] TypeDestroy h)
                              (DestroyStep.fields
                                 \<lparr>InfraValues.Infra = ispec, InfraValues.Clusters = cspec\<rparr>
                                 tfPath 0 0 0))]
             in (pl, True)))"

text \<open>
  The loop of \<open>buildCreatePlan\<close> over the cluster specs, with the plan built so far as
  accumulator. It leaves with \<open>(nil, false)\<close> at the first cluster whose workspace is
  missing or has no hash, and panics where \<open>prefixedClusterName\<close> does.
\<close>

fun clusterSteps ::
  "Planner \<Rightarrow> NamespacedName \<Rightarrow> Sourcer \<Rightarrow> InfraSpec \<Rightarrow> Workspace \<Rightarrow> string \<Rightarrow> string \<Rightarrow>
   ClusterSpec list \<Rightarrow> plan \<Rightarrow> (plan \<times> bool) outcome" where
  "clusterSteps p nsn src ispec tfw tfPath h [] pl = Returns (pl, True)"
| "clusterSteps p nsn src ispec tfw tfPath h (cl # cls) pl =
     (case src nsn (ClusterSpec.Name cl) of
        None \<Rightarrow> Returns ([], False)
      | Some cw \<Rightarrow>
          if Workspace.Hash cw = [] then Returns ([], False)
          else
            (let kcPath = Join [Workspace.Path cw, ''kubeconfig''];
                 mvPath = Join [Workspace.Path cw, MKV (ClusterSpec.Addons cl)];
                 az = AZSpec.Subscription (InfraSpec.AZ ispec)
             in case prefixedClusterName ''aks'' (InfraSpec.EnvName ispec) (ClusterSpec.Name cl) of
                  Panics e \<Rightarrow> Panics e
                | Returns cn \<Rightarrow>
                    clusterSteps p nsn src ispec tfw tfPath h cls
                      (pl @
                       [AKSPool (Metaa.extend
                          (stepMeta nsn (ClusterSpec.Name cl) TypeAKSPool
                             (hash p [HString (Workspace.Hash tfw),
                                      HString (AZSpec.ResourceGroup (InfraSpec.AZ ispec)),
                                      HString (ClusterInfraSpec.Version (ClusterSpec.Infra cl))]))
                          (AKSPoolStep.fields (AZSpec.ResourceGroup (InfraSpec.AZ ispec)) cn
                             (ClusterInfraSpec.Version (ClusterSpec.Infra cl)) az)),
                        Kubeconfig (Metaa.extend
                          (stepMeta nsn (ClusterSpec.Name cl) TypeKubeconfig
                             (hash p [HString (Workspace.Hash tfw)]))
                          (KubeconfigStep.fields tfPath (ClusterSpec.Name cl) kcPath
                             (StateSpec.Access (InfraSpec.State ispec)))),
                        AKSAddonPreflight (Metaa.extend
                          (stepMeta nsn (ClusterSpec.Name cl) TypeAKSAddonPreflight h)
                          (AKSAddonPreflightStep.fields kcPath)),
                        Addon (Metaa.extend
                          (stepMeta nsn (ClusterSpec.Name cl) TypeAddons
                             (hash p [HString (Workspace.Hash cw),
                                      HStrings (Jobs (ClusterSpec.Addons cl)),
                                      HValues (X (ClusterSpec.Addons cl))]))
                          (AddonStep.fields (Workspace.Path cw) kcPath mvPath
                             (Jobs (ClusterSpec.Addons cl)) (X (ClusterSpec.Addons cl))))])))"

definition buildCreatePlan ::
  "Planner \<Rightarrow> NamespacedName \<Rightarrow> Sourcer \<Rightarrow> InfraSpec \<Rightarrow> ClusterSpec list \<Rightarrow> (plan \<times> bool) outcome" where
  "buildCreatePlan p nsn src ispec cspec =
     (case src nsn [] of
        None \<Rightarrow> Returns ([], False)
      | Some tfw \<Rightarrow>
          if \<not> Workspace.Synced tfw then Returns ([], False)
          else
            (let tfPath = Join [Workspace.Path tfw, InfraSpec.Main ispec];
                 cspecInfra = map ClusterSpec.Infra cspec;
                 h = hash p [HString (Workspace.Hash tfw), HInfraSpec ispec, HClusterInfras cspecInfra];
                 pl = [] @ [Infra (Metaa.extend (stepMeta nsn [] TypeInfra h)
                              (InfraStep.fields
                                 \<lparr>InfraValues.Infra = ispec, InfraValues.Clusters = cspec\<rparr>
                                 tfPath 0 0 0))]
             in clusterSteps p nsn src ispec tfw tfPath h cspec pl))"

text \<open>\<open>buildPlan\<close> stores the filtered plan under \<open>nsn\<close> and returns the planner with it.\<close>

definition buildPlan ::
  "Planner \<Rightarrow> NamespacedName \<Rightarrow> Sourcer \<Rightarrow> bool \<Rightarrow> InfraSpec \<Rightarrow> ClusterSpec list \<Rightarrow>
   (Planner \<times> bool) outcome" where
  "buildPlan p nsn src destroy ispec cspec =
     (case (if destroy then Returns (buildDestroyPlan p nsn src ispec cspec)
            else buildCreatePlan p nsn src ispec cspec) of
        Panics e \<Rightarrow> Panics e
      | Returns (pl, ok) \<Rightarrow>
          if \<not> ok then Returns (p, False)
          else Returns (p\<lparr>currentPlans := (currentPlans p)(nsn \<mapsto> planFilter pl (AllowedStepTypes p))\<rparr>,
                        True))"

text \<open>
  Modelled from the spec: \<open>currentPlan\<close> and \<open>currentPlanStep\<close> are missing from the
  sources. The spec keeps plans "in-memory and keyed by NSN" and has the running fast path
  return the step of the plan in memory "with a matching ShortName".
\<close>

definition currentPlan :: "Planner \<Rightarrow> NamespacedName \<Rightarrow> plan option" where
  "currentPlan p nsn = currentPlans p nsn"

definition currentPlanStep :: "Planner \<Rightarrow> NamespacedName \<Rightarrow> string \<Rightarrow> Step option" where
  "currentPlanStep p nsn name =
     (case currentPlan p nsn of
        None \<Rightarrow> None
      | Some pl \<Rightarrow> find (\<lambda>st. ShortName (Metaa.ID (Meta st)) = name) pl)"

text \<open>
  \<open>selectStep\<close> has five return sites, \<open>NextStep\<close> has six; the models return the site
  together with what it returns, and \<open>selectReturn\<close> and \<open>nextReturn\<close> give the pair
  \<open>(step.Step, error)\<close> of the source (\<open>None\<close> for nil).
\<close>

datatype selectExit =
    NoPlan error
  | FirstSeen Step
  | NoRetryBudget
  | HashDiffers Step
  | EndOfWalk

fun walk :: "(string \<times> StepStatus) list \<Rightarrow> plan \<Rightarrow> selectExit" where
  "walk steps [] = EndOfWalk"
| "walk steps (st # pl) =
     (let id = Metaa.ID (Meta st)
      in case map_of steps (ShortName id) of
           None \<Rightarrow> FirstSeen st
         | Some current \<Rightarrow>
             if StepStatus.Hash current = Metaa.Hash (Meta st) then walk steps pl
             else if StepStatus.State current = StateError then NoRetryBudget
             else HashDiffers st)"

definition selectStep :: "Planner \<Rightarrow> NamespacedName \<Rightarrow> EnvironmentStatus \<Rightarrow> selectExit" where
  "selectStep p nsn status =
     (case currentPlan p nsn of
        None \<Rightarrow> NoPlan (ExpectedPlanFor nsn)
      | Some pl \<Rightarrow> walk (Steps status) pl)"

fun selectReturn :: "selectExit \<Rightarrow> Step option \<times> error option" where
  "selectReturn (NoPlan e) = (None, Some e)"
| "selectReturn (FirstSeen st) = (Some st, None)"
| "selectReturn NoRetryBudget = (None, None)"
| "selectReturn (HashDiffers st) = (Some st, None)"
| "selectReturn EndOfWalk = (None, None)"

datatype nextExit =
    ErrorGate
  | RunningInMemory Step
  | VaultFailed error
  | NotReady
  | RunningRebuilt Step
  | Selected selectExit

fun nextReturn :: "nextExit \<Rightarrow> Step option \<times> error option" where
  "nextReturn ErrorGate = (None, None)"
| "nextReturn (RunningInMemory st) = (Some st, None)"
| "nextReturn (VaultFailed e) = (None, Some e)"
| "nextReturn NotReady = (None, None)"
| "nextReturn (RunningRebuilt st) = (Some st, None)"
| "nextReturn (Selected x) = selectReturn x"

definition NextStep ::
  "Planner \<Rightarrow> NamespacedName \<Rightarrow> Sourcer \<Rightarrow> bool \<Rightarrow> InfraSpec \<Rightarrow> ClusterSpec list \<Rightarrow>
   EnvironmentStatus \<Rightarrow> (Planner \<times> nextExit) outcome" where
  "NextStep p nsn src destroy ispec cspec status =
     (if length (stepFilter status StateError) > 0 then Returns (p, ErrorGate)
      else
        (let running = stepFilter status StateRunning
         in case (if length running > 0 then currentPlanStep p nsn (hd running) else None) of
              Some st \<Rightarrow> Returns (p, RunningInMemory st)
            | None \<Rightarrow>
                (case vaultInfraValues p ispec of
                   Inl err \<Rightarrow> Returns (p, VaultFailed (VaultRef err))
                 | Inr ispec' \<Rightarrow>
                     (case buildPlan p nsn src destroy ispec' cspec of
                        Panics e \<Rightarrow> Panics e
                      | Returns (p', ok) \<Rightarrow>
                          if \<not> ok then Returns (p', NotReady)
                          else
                            (case (if length running > 0 then currentPlanStep p' nsn (hd running)
                                   else None) of
                               Some st \<Rightarrow> Returns (p', RunningRebuilt st)
                             | None \<Rightarrow> Returns (p', Selected (selectStep p' nsn status)))))))"

text \<open>What a caller of \<open>NextStep\<close> gets back, the planner's own state apart.\<close>

definition NextStepResult ::
  "Planner \<Rightarrow> NamespacedName \<Rightarrow> Sourcer \<Rightarrow> bool \<Rightarrow> InfraSpec \<Rightarrow> ClusterSpec list \<Rightarrow>
   EnvironmentStatus \<Rightarrow> (Step option \<times> error option) outcome" where
  "NextStepResult p nsn src destroy ispec cspec status =
     (case NextStep p nsn src destroy ispec cspec status of
        Panics e \<Rightarrow> Panics e
      | Returns (p', x) \<Rightarrow> Returns (nextReturn x))"

section \<open>Executing the terraform steps (package \<open>step\<close>)\<close>

text \<open>
  The results of the terraform client (package \<open>terraform\<close>, not among the sources at
  hand), with the fields the steps read. The plan counts are assigned to the \<open>int\<close> fields
  \<open>Added\<close>, \<open>Changed\<close>, \<open>Deleted\<close> of the step without conversion, so they are Go's \<open>int\<close>;
  the code compares and prints them and does no arithmetic on them, so unbounded integers
  stand for them.
\<close>

record TFResult =
  Text :: string
  Errors :: "string list"
  PlanAdded :: int
  PlanChanged :: int
  PlanDeleted :: int

record TFApplyResult =
  Object :: string
  Action :: string
  Text :: string
  Errors :: "string list"
  TotalAdded :: int
  TotalChanged :: int
  TotalDestroyed :: int

record ServicePrincipal =
  ClientID :: string
  ClientSecret :: string
  Tenant :: string

text \<open>
  What the collaborators of a step answer. \<open>ExpandAll\<close> and \<open>Login\<close> answer an error text
  or succeed. \<open>StartApply\<close> and \<open>StartDestroy\<close> answer an error text, or a command handle
  and a channel: the handle is \<open>None\<close> for Go's nil (as the fakes return it) and otherwise
  holds what \<open>Wait\<close> will return; the channel is the list of the records the producer sends
  before it closes the channel. \<open>KVSliceMergeMap\<close> is the helper of package \<open>util\<close> that
  merges the extra variables into the environment; it is not among the sources and is an
  arbitrary function here. \<open>RangeOrder\<close> is the order in which a \<open>range\<close> over the map of
  extra variables visits its entries: Go leaves that order open, so it is a parameter of
  the run, taking the entries of the map to the sequence in which they are visited.
\<close>

type_synonym Cmd = "string option"

record World =
  ExpandAll :: "string \<Rightarrow> string \<Rightarrow> InfraValues \<Rightarrow> string option"
  Login :: "string + ServicePrincipal"
  KVSliceMergeMap :: "string list \<Rightarrow> (string \<times> string) list \<Rightarrow> string list"
  RangeOrder :: "(string \<times> string) list \<Rightarrow> (string \<times> string) list"
  Init :: "string list \<Rightarrow> string \<Rightarrow> TFResult"
  Plan :: "string list \<Rightarrow> string \<Rightarrow> TFResult"
  StartApply :: "string list \<Rightarrow> string \<Rightarrow> string + (Cmd option \<times> TFApplyResult list)"
  StartDestroy :: "string list \<Rightarrow> string \<Rightarrow> string + (Cmd option \<times> TFApplyResult list)"

text \<open>
  What a step does to the outside, in the order it does it: the calls on the two sinks,
  on the file system and on the terraform client. Calls on the logger are left out.
\<close>

datatype event =
    Update Step
  | Info ID string
  | Warning ID string
  | MkdirAll string
  | WriteFile string string
  | CallInit "string list" string
  | CallPlan "string list" string
  | CallStartApply "string list" string
  | CallStartDestroy "string list" string
  | CallWait

text \<open>\<open>writeText(text, dir, name, log)\<close>: errors of the two calls are logged only.\<close>

definition writeText :: "string \<Rightarrow> string \<Rightarrow> string \<Rightarrow> event list" where
  "writeText text dir name =
     (let p = Join [dir, ''log'']
      in [MkdirAll p, WriteFile (Join [p, name]) text])"

text \<open>
  \<open>terraformEnviron\<close> returns a map with four keys; the list gives its bindings, and says
  nothing of the order in which the map is iterated.
\<close>

definition terraformEnviron :: "ServicePrincipal \<Rightarrow> string \<Rightarrow> (string \<times> string) list" where
  "terraformEnviron sp access =
     [(''ARM_CLIENT_ID'', ClientID sp),
      (''ARM_CLIENT_SECRET'', ClientSecret sp),
      (''ARM_TENANT_ID'', Tenant sp),
      (''ARM_ACCESS_KEY'', access)]"

text \<open>
  \<open>writeEnv(env, dir, name, log)\<close> ranges over the map \<open>env\<close>; the world gives the order of
  that iteration.
\<close>

definition writeEnv :: "World \<Rightarrow> (string \<times> string) list \<Rightarrow> string \<Rightarrow> string \<Rightarrow> event list" where
  "writeEnv w env dir name =
     (let s = foldl (\<lambda>s (k, v). s @ '' '' @ k @ ''='' @ v) ''export'' (RangeOrder w (rangeMap env))
      in writeText s dir name)"

text \<open>
  The loop \<open>for r := range ch\<close> of both steps: every record with an object is reported to
  the info sink, and \<open>final\<close> (the pointer \<open>last\<close> of the source) is the record received
  last; it stays nil when the channel closes before any record.
\<close>

fun drain :: "ID \<Rightarrow> TFApplyResult list \<Rightarrow> TFApplyResult option \<Rightarrow> event list \<times> TFApplyResult option" where
  "drain i [] final = ([], final)"
| "drain i (r # rs) final =
     (let (evs, final') = drain i rs (Some r)
      in ((if Object r \<noteq> [] then [Info i (Object r @ '' '' @ Action r)] else []) @ evs, final'))"

definition wait :: "Cmd option \<Rightarrow> event list" where
  "wait cmd = (case cmd of None \<Rightarrow> [] | Some err \<Rightarrow> [CallWait])"

text \<open>
  \<open>InfraStep.Execute\<close>, in three parts that follow the source's comments \<open>Init\<close>, \<open>Plan\<close>
  (with the budget check) and \<open>Apply\<close>. Each part returns the events so far, the step as
  the method leaves it, and what the method returns.
\<close>

definition infraApply ::
  "World \<Rightarrow> string list \<Rightarrow> InfraStep \<Rightarrow> TFResult \<Rightarrow> event list \<Rightarrow> event list \<times> InfraStep \<times> bool outcome" where
  "infraApply w env st tfr evs =
     (let st = st\<lparr>Metaa.Msg := ''terraform apply adds='' @ showInt (PlanAdded tfr) @
                    '' changes='' @ showInt (PlanChanged tfr) @
                    '' deletes='' @ showInt (PlanDeleted tfr)\<rparr>;
          evs = evs @ [Update (Infra st), CallStartApply env (InfraStep.SourcePath st)]
      in case StartApply w env (InfraStep.SourcePath st) of
           Inl err \<Rightarrow>
             (let evs = evs @ [Warning (Metaa.ID st) (''start terraform apply:'' @ err)];
                  st = st\<lparr>Metaa.State := StateError, Metaa.Msg := ''start terraform apply:'' @ err\<rparr>
              in (evs @ [Update (Infra st)], st, Returns False))
         | Inr (cmd, ch) \<Rightarrow>
             (let (infos, final) = drain (Metaa.ID st) ch None;
                  evs = evs @ infos @ wait cmd
              in case final of
                   None \<Rightarrow> (evs, st, Panics NilPointerDereference)
                 | Some l \<Rightarrow>
                     (let evs = evs @ writeText (TFApplyResult.Text l) (InfraStep.SourcePath st) ''apply.txt''
                      in if final = None then
                           (let st = st\<lparr>Metaa.State := StateError,
                                        Metaa.Msg := ''did not receive response from terraform apply''\<rparr>
                            in (evs @ [Update (Infra st)], st, Returns False))
                         else
                           (let (st, evs) =
                                  (if length (TFApplyResult.Errors l) > 0 then
                                     (let st = st\<lparr>Metaa.State := StateError,
                                                  Metaa.Msg := stringsJoin (TFApplyResult.Errors l) '', ''\<rparr>
                                      in (st, evs @ writeText (Metaa.Msg st) (InfraStep.SourcePath st) ''apply.err''))
                                   else
                                     (st\<lparr>Metaa.State := StateReady,
                                         Metaa.Msg := ''terraform apply errors=0 added='' @ showInt (TotalAdded l) @
                                           '' changed='' @ showInt (TotalChanged l) @
                                           '' deleted='' @ showInt (TotalDestroyed l)\<rparr>, evs));
                                st = st\<lparr>InfraStep.Added := TotalAdded l, InfraStep.Changed := TotalChanged l,
                                        InfraStep.Deleted := TotalDestroyed l\<rparr>
                            in (evs @ [Update (Infra st)], st, Returns (Metaa.State st = StateReady))))))"

definition infraPlan ::
  "World \<Rightarrow> string list \<Rightarrow> InfraStep \<Rightarrow> event list \<Rightarrow> event list \<times> InfraStep \<times> bool outcome" where
  "infraPlan w env st evs =
     (let st = st\<lparr>Metaa.Msg := ''terraform plan''\<rparr>;
          evs = evs @ [Update (Infra st), CallPlan env (InfraStep.SourcePath st)];
          tfr = Plan w env (InfraStep.SourcePath st);
          evs = evs @ writeText (TFResult.Text tfr) (InfraStep.SourcePath st) ''plan.txt''
      in if length (TFResult.Errors tfr) > 0 then
           (let st = st\<lparr>Metaa.State := StateError,
                        Metaa.Msg := ''terraform plan '' @ hd (TFResult.Errors tfr)\<rparr>
            in (evs @ [Update (Infra st)] @
                  writeText (hd (TFResult.Errors tfr)) (InfraStep.SourcePath st) ''plan.err'',
                st, Returns False))
         else
           (let st = st\<lparr>InfraStep.Added := PlanAdded tfr, InfraStep.Changed := PlanChanged tfr,
                        InfraStep.Deleted := PlanDeleted tfr\<rparr>
            in if InfraStep.Added st = 0 \<and> InfraStep.Changed st = 0 \<and> InfraStep.Deleted st = 0 then
                 (let st = st\<lparr>Metaa.State := StateReady, Metaa.Msg := ''terraform plan: nothing to do''\<rparr>
                  in (evs @ [Update (Infra st)], st, Returns True))
               else
                 (let b = Budget (InfraValues.Infra (InfraStep.Values st))
                  in if AddLimit b \<noteq> None \<and> PlanAdded tfr > int (the (AddLimit b)) then
                       (let st = st\<lparr>Metaa.State := StateError,
                                    Metaa.Msg := ''plan added '' @ showInt (PlanAdded tfr) @
                                      '' exceeds addLimit '' @ showInt (int (the (AddLimit b)))\<rparr>
                        in (evs @ [Update (Infra st)], st, Returns False))
                     else if UpdateLimit b \<noteq> None \<and> PlanChanged tfr > int (the (UpdateLimit b)) then
                       (let st = st\<lparr>Metaa.State := StateError,
                                    Metaa.Msg := ''plan changed '' @ showInt (PlanChanged tfr) @
                                      '' exceeds updateLimit '' @ showInt (int (the (UpdateLimit b)))\<rparr>
                        in (evs @ [Update (Infra st)], st, Returns False))
                     else if DeleteLimit b \<noteq> None \<and> PlanDeleted tfr > int (the (DeleteLimit b)) then
                       (let st = st\<lparr>Metaa.State := StateError,
                                    Metaa.Msg := ''plan deleted '' @ showInt (PlanDeleted tfr) @
                                      '' exceeds deleteLimit '' @ showInt (int (the (DeleteLimit b)))\<rparr>
                        in (evs @ [Update (Infra st)], st, Returns False))
                     else infraApply w env st tfr evs)))"

definition InfraStep_Execute ::
  "World \<Rightarrow> string list \<Rightarrow> InfraStep \<Rightarrow> event list \<times> InfraStep \<times> bool outcome" where
  "InfraStep_Execute w env st =
     (let st = st\<lparr>Metaa.State := StateRunning, Metaa.Msg := ''terraform init''\<rparr>;
          evs = [Update (Infra st)]
      in case ExpandAll w (InfraStep.SourcePath st) ''.tmplt'' (InfraStep.Values st) of
           Some err \<Rightarrow>
             (let st = st\<lparr>Metaa.State := StateError, Metaa.Msg := err\<rparr>
              in (evs @ [Update (Infra st)], st, Returns False))
         | None \<Rightarrow>
             (case Login w of
                Inl err \<Rightarrow>
                  (let st = st\<lparr>Metaa.State := StateError, Metaa.Msg := err\<rparr>
                   in (evs @ [Update (Infra st)], st, Returns False))
              | Inr sp \<Rightarrow>
                  (let xenv = terraformEnviron sp
                                (StateSpec.Access (InfraSpec.State (InfraValues.Infra (InfraStep.Values st))));
                       evs = evs @ writeEnv w xenv (InfraStep.SourcePath st) ''infra.env'';
                       env = KVSliceMergeMap w env xenv;
                       evs = evs @ [CallInit env (InfraStep.SourcePath st)];
                       tfr = Init w env (InfraStep.SourcePath st);
                       evs = evs @ writeText (TFResult.Text tfr) (InfraStep.SourcePath st) ''init.txt''
                   in if length (TFResult.Errors tfr) > 0 then
                        (let st = st\<lparr>Metaa.State := StateError,
                                     Metaa.Msg := ''terraform init '' @ hd (TFResult.Errors tfr)\<rparr>
                         in (evs @ [Update (Infra st)] @
                               writeText (hd (TFResult.Errors tfr)) (InfraStep.SourcePath st) ''init.err'',
                             st, Returns False))
                      else infraPlan w env st evs)))"

text \<open>
  \<open>DestroyStep.Execute\<close>. Its three arguments to \<open>writeText\<close> are passed in the order the
  source has them: the source path first, the file name second, the text third.
\<close>

definition DestroyStep_Execute ::
  "World \<Rightarrow> string list \<Rightarrow> DestroyStep \<Rightarrow> event list \<times> DestroyStep \<times> bool outcome" where
  "DestroyStep_Execute w env st =
     (let st = st\<lparr>Metaa.State := StateRunning, Metaa.Msg := ''terraform init''\<rparr>;
          evs = [Update (Destroy st)]
      in case ExpandAll w (DestroyStep.SourcePath st) ''.tmplt'' (DestroyStep.Values st) of
           Some err \<Rightarrow>
             (let st = st\<lparr>Metaa.State := StateError, Metaa.Msg := err\<rparr>
              in (evs @ [Update (Destroy st)], st, Returns False))
         | None \<Rightarrow>
             (let evs = evs @ [CallInit env (DestroyStep.SourcePath st)];
                  tfr = Init w env (DestroyStep.SourcePath st);
                  evs = evs @ writeText (DestroyStep.SourcePath st) ''init.txt'' (TFResult.Text tfr)
              in if length (TFResult.Errors tfr) > 0 then
                   (let st = st\<lparr>Metaa.State := StateError,
                                Metaa.Msg := ''terraform init '' @ hd (TFResult.Errors tfr)\<rparr>
                    in (evs @ [Update (Destroy st)], st, Returns False))
                 else
                   (let st = st\<lparr>Metaa.Msg := ''terraform destroy''\<rparr>;
                        evs = evs @ [Update (Destroy st), CallStartDestroy env (DestroyStep.SourcePath st)]
                    in case StartDestroy w env (DestroyStep.SourcePath st) of
                         Inl err \<Rightarrow>
                           (let evs = evs @ [Warning (Metaa.ID st) (''start terraform destroy:'' @ err)];
                                st = st\<lparr>Metaa.State := StateError,
                                        Metaa.Msg := ''start terraform destroy:'' @ err\<rparr>
                            in (evs @ [Update (Destroy st)], st, Returns False))
                       | Inr (cmd, ch) \<Rightarrow>
                           (let st = st\<lparr>Metaa.State := StateRunning\<rparr>;
                                evs = evs @ [Update (Destroy st)];
                                (infos, final) = drain (Metaa.ID st) ch None;
                                evs = evs @ infos @ wait cmd
                            in case final of
                                 None \<Rightarrow> (evs, st, Panics NilPointerDereference)
                               | Some l \<Rightarrow>
                                   (let evs = evs @ writeText (DestroyStep.SourcePath st) ''destroy.txt''
                                                      (TFApplyResult.Text l)
                                    in if final = None then
                                         (let st = st\<lparr>Metaa.State := StateError,
                                                      Metaa.Msg := ''did not receive response from terraform destroy''\<rparr>
                                          in (evs @ [Update (Destroy st)], st, Returns False))
                                       else
                                         (let st =
                                                (if length (TFApplyResult.Errors l) > 0 then
                                                   st\<lparr>Metaa.State := StateError,
                                                      Metaa.Msg := stringsJoin (TFApplyResult.Errors l) '', ''\<rparr>
                                                 else
                                                   st\<lparr>Metaa.State := StateReady,
                                                      Metaa.Msg := ''terraform destroy errors=0 added='' @
                                                        showInt (TotalAdded l) @
                                                        '' changed='' @ showInt (TotalChanged l) @
                                                        '' deleted='' @ showInt (TotalDestroyed l)\<rparr>);
                                              st = st\<lparr>DestroyStep.Added := TotalAdded l,
                                                      DestroyStep.Changed := TotalChanged l,
                                                      DestroyStep.Deleted := TotalDestroyed l\<rparr>
                                          in (evs @ [Update (Destroy st)], st,
                                              Returns (Metaa.State st = StateReady))))))))"

section \<open>Notions the properties are stated with\<close>

text \<open>
  A step is up to date when the persisted status has an entry under the step's short name
  and that entry carries the step's hash.
\<close>

definition upToDate :: "(string \<times> StepStatus) list \<Rightarrow> Step \<Rightarrow> bool" where
  "upToDate steps st =
     (case map_of steps (ShortName (Metaa.ID (Meta st))) of
        None \<Rightarrow> False
      | Some current \<Rightarrow> StepStatus.Hash current = Metaa.Hash (Meta st))"

text \<open>A plan count is within its limit when the limit is nil or the count does not exceed it.\<close>

definition withinLimit :: "int \<Rightarrow> nat option \<Rightarrow> bool" where
  "withinLimit n lim = (case lim of None \<Rightarrow> True | Some m \<Rightarrow> n \<le> int m)"

text \<open>
  The apply succeeded when it could be started, its channel delivered at least one record,
  and the record delivered last carries no errors.
\<close>

definition applySucceeded :: "World \<Rightarrow> string list \<Rightarrow> string \<Rightarrow> bool" where
  "applySucceeded w env dir =
     (case StartApply w env dir of
        Inl err \<Rightarrow> False
      | Inr (cmd, ch) \<Rightarrow> ch \<noteq> [] \<and> TFApplyResult.Errors (last ch) = [])"

text \<open>The environment the Infra step hands to terraform once the login succeeded.\<close>

definition infraEnv :: "World \<Rightarrow> string list \<Rightarrow> InfraStep \<Rightarrow> ServicePrincipal \<Rightarrow> string list" where
  "infraEnv w env st sp =
     KVSliceMergeMap w env
       (terraformEnviron sp (StateSpec.Access (InfraSpec.State (InfraValues.Infra (InfraStep.Values st)))))"

text \<open>
  Readings of a step's events: the files written (path and text), the calls of
  \<open>StartApply\<close>, and the steps handed to the update sink.
\<close>

fun writes :: "event list \<Rightarrow> (string \<times> string) list" where
  "writes [] = []"
| "writes (WriteFile path text # evs) = (path, text) # writes evs"
| "writes (e # evs) = writes evs"

fun startApplyCalls :: "event list \<Rightarrow> (string list \<times> string) list" where
  "startApplyCalls [] = []"
| "startApplyCalls (CallStartApply env dir # evs) = (env, dir) # startApplyCalls evs"
| "startApplyCalls (e # evs) = startApplyCalls evs"

fun updates :: "event list \<Rightarrow> Step list" where
  "updates [] = []"
| "updates (Update st # evs) = st # updates evs"
| "updates (e # evs) = updates evs"

section \<open>A concrete environment\<close>

text \<open>
  One environment with one cluster \<open>k\<close>, the identity the controller tests use, and
  collaborators in the manner of the fakes: a hash that depends on the number of
  arguments only, a terraform client whose plan counts and apply records are given, and
  a map of extra variables that is iterated in the order \<open>ARM_CLIENT_ID\<close>,
  \<open>ARM_CLIENT_SECRET\<close>, \<open>ARM_TENANT_ID\<close>, \<open>ARM_ACCESS_KEY\<close>.
\<close>

definition nsn0 :: NamespacedName where
  "nsn0 = \<lparr>NamespacedName.Namespace = ''default'', NamespacedName.Name = ''env314''\<rparr>"

definition ispec0 :: InfraSpec where
  "ispec0 = \<lparr>Main = ''infra'', EnvName = ''prod'',
             AZ = \<lparr>Subscription = ''sub'', AZSpec.ResourceGroup = ''rg''\<rparr>,
             InfraSpec.State = \<lparr>StateSpec.Access = ''key''\<rparr>,
             Budget = \<lparr>AddLimit = None, UpdateLimit = None, DeleteLimit = Some 2\<rparr>\<rparr>"

definition cspec0 :: "ClusterSpec list" where
  "cspec0 = [\<lparr>ClusterSpec.Name = ''k'', ClusterSpec.Infra = \<lparr>ClusterInfraSpec.Version = ''1.21''\<rparr>,
              Addons = \<lparr>MKV = ''mkv'', Jobs = [''job.yaml''], X = [(''a'', ''b'')]\<rparr>\<rparr>]"

definition src0 :: Sourcer where
  "src0 nsn name =
     (if name = [] then Some \<lparr>Path = ''/ws'', Workspace.Hash = ''abc'', Synced = True\<rparr>
      else if name = ''k'' then Some \<lparr>Path = ''/ws/k'', Workspace.Hash = ''k1'', Synced = True\<rparr>
      else None)"

definition srcNone :: Sourcer where
  "srcNone nsn name = None"

definition planner0 :: Planner where
  "planner0 = \<lparr>AllowedStepTypes = {}, currentPlans = Map.empty,
               hashstructure = (\<lambda>args. Inr (of_nat (length args))),
               vault = (\<lambda>ispec. Inr ispec)\<rparr>"

definition plannerNoVault :: Planner where
  "plannerNoVault = planner0\<lparr>vault := (\<lambda>ispec. Inl ''secret not found'')\<rparr>"

definition status0 :: EnvironmentStatus where
  "status0 = \<lparr>Steps = [(''Infra'', \<lparr>StepStatus.Hash = ''3'', StepStatus.State = StateReady, StepStatus.Msg = ''ok''\<rparr>)]\<rparr>"


definition statusError :: EnvironmentStatus where
  "statusError = \<lparr>Steps =
     [(''Infra'', \<lparr>StepStatus.Hash = ''3'', StepStatus.State = StateReady, StepStatus.Msg = ''ok''\<rparr>),
      (''AKSPool.k'', \<lparr>StepStatus.Hash = ''3'', StepStatus.State = StateError, StepStatus.Msg = ''upgrade failed''\<rparr>),
      (''Addons.k'', \<lparr>StepStatus.Hash = ''old'', StepStatus.State = StateReady, StepStatus.Msg = ''ok''\<rparr>)]\<rparr>"

definition infraStep0 :: InfraStep where
  "infraStep0 = Metaa.extend (stepMeta nsn0 [] TypeInfra ''3'')
     (InfraStep.fields \<lparr>InfraValues.Infra = ispec0, InfraValues.Clusters = cspec0\<rparr> ''/ws/infra'' 0 0 0)"

definition destroyStep0 :: DestroyStep where
  "destroyStep0 = Metaa.extend (stepMeta nsn0 [] TypeDestroy ''1'')
     (DestroyStep.fields \<lparr>InfraValues.Infra = ispec0, InfraValues.Clusters = cspec0\<rparr> ''/ws/infra'' 0 0 0)"

definition sp0 :: ServicePrincipal where
  "sp0 = \<lparr>ClientID = ''id'', ClientSecret = ''secret'', Tenant = ''tenant''\<rparr>"

definition records0 :: "TFApplyResult list" where
  "records0 =
     [\<lparr>Object = ''azurerm_resource_group.env'', Action = ''creating'', TFApplyResult.Text = ''creating'',
       TFApplyResult.Errors = [], TotalAdded = 0, TotalChanged = 0, TotalDestroyed = 0\<rparr>,
      \<lparr>Object = [], Action = [], TFApplyResult.Text = ''Apply complete!'',
       TFApplyResult.Errors = [], TotalAdded = 1, TotalChanged = 0, TotalDestroyed = 1\<rparr>]"

definition world :: "int \<Rightarrow> int \<Rightarrow> int \<Rightarrow> TFApplyResult list \<Rightarrow> World" where
  "world a c d ch =
     \<lparr>ExpandAll = (\<lambda>dir suffix vals. None),
      Login = Inr sp0,
      KVSliceMergeMap = (\<lambda>env xenv. env @ map (\<lambda>(k, v). k @ ''='' @ v) xenv),
      RangeOrder = (\<lambda>entries. entries),
      Init = (\<lambda>env dir. \<lparr>TFResult.Text = ''Terraform has been successfully initialized!'',
                          TFResult.Errors = [], PlanAdded = 0, PlanChanged = 0, PlanDeleted = 0\<rparr>),
      Plan = (\<lambda>env dir. \<lparr>TFResult.Text = ''Plan:'', TFResult.Errors = [],
                          PlanAdded = a, PlanChanged = c, PlanDeleted = d\<rparr>),
      StartApply = (\<lambda>env dir. Inr (None, ch)),
      StartDestroy = (\<lambda>env dir. Inr (None, ch))\<rparr>"

section \<open>Facts about the planner\<close>

lemmas example_defs = nsn0_def ispec0_def cspec0_def src0_def srcNone_def planner0_def
  plannerNoVault_def status0_def

lemmas planner_defs = NextStepResult_def NextStep_def buildPlan_def buildCreatePlan_def
  buildDestroyPlan_def planFilter_def selectStep_def currentPlan_def currentPlanStep_def
  vaultInfraValues_def stepFilter_def rangeMap_def stepMeta_def hash_def FormatUint16_def
  digit_def ShortName_def prefixedClusterName_def Join_def Clean_def upToDate_def Let_def
  Metaa.defs InfraStep.defs DestroyStep.defs AKSPoolStep.defs KubeconfigStep.defs
  AKSAddonPreflightStep.defs AddonStep.defs

lemma set_rangeMap: "(k, v) \<in> set (rangeMap kvs) \<longleftrightarrow> map_of kvs k = Some v"
  by (induction kvs) (auto simp: rangeMap_def)

lemma stepFilter_iff:
  "n \<in> set (stepFilter status state) \<longleftrightarrow>
     (\<exists>s. map_of (Steps status) n = Some s \<and> StepStatus.State s = state)"
  by (auto simp: stepFilter_def set_rangeMap image_iff)

lemma stepFilter_Nil:
  assumes "stepFilter status state = []" and "map_of (Steps status) n = Some s"
  shows "StepStatus.State s \<noteq> state"
proof
  assume "StepStatus.State s = state"
  with assms(2) have "n \<in> set (stepFilter status state)"
    by (auto simp: stepFilter_iff)
  with assms(1) show False by simp
qed

lemma walk_find:
  assumes "\<And>n s. map_of steps n = Some s \<Longrightarrow> StepStatus.State s \<noteq> StateError"
  shows "walk steps pl =
     (case find (\<lambda>st. \<not> upToDate steps st) pl of
        None \<Rightarrow> EndOfWalk
      | Some st \<Rightarrow>
          if map_of steps (ShortName (Metaa.ID (Meta st))) = None then FirstSeen st
          else HashDiffers st)"
proof (induction pl)
  case Nil
  show ?case by simp
next
  case (Cons st pl)
  show ?case
  proof (cases "map_of steps (ShortName (Metaa.ID (Meta st)))")
    case None
    then show ?thesis by (simp add: upToDate_def)
  next
    case (Some current)
    with assms have "StepStatus.State current \<noteq> StateError" by blast
    with Some Cons.IH show ?thesis by (simp add: upToDate_def)
  qed
qed

lemma selectReturn_walk:
  assumes "\<And>n s. map_of steps n = Some s \<Longrightarrow> StepStatus.State s \<noteq> StateError"
  shows "selectReturn (walk steps pl) = (find (\<lambda>st. \<not> upToDate steps st) pl, None)"
  by (simp add: walk_find [OF assms] split: option.split)

lemma buildPlan_True:
  assumes "buildPlan p nsn src destroy ispec cspec = Returns (p', True)"
  shows "\<exists>built.
     (if destroy then Returns (buildDestroyPlan p nsn src ispec cspec)
      else buildCreatePlan p nsn src ispec cspec) = Returns (built, True) \<and>
     p' = p\<lparr>currentPlans := (currentPlans p)(nsn \<mapsto> planFilter built (AllowedStepTypes p))\<rparr>"
  using assms
  by (auto simp: buildPlan_def split: outcome.splits prod.splits if_splits)

lemma example_no_error: "stepFilter status0 StateError = []"
  by (simp add: status0_def stepFilter_def rangeMap_def)

lemma example_no_running: "stepFilter status0 StateRunning = []"
  by (simp add: status0_def stepFilter_def rangeMap_def)

lemma example_vault: "vaultInfraValues planner0 ispec0 = Inr ispec0"
  by (simp add: planner0_def vaultInfraValues_def)

lemma example_buildPlan:
  "\<exists>p'. buildPlan planner0 nsn0 src0 False ispec0 cspec0 = Returns (p', True)"
  by (simp add: example_defs planner_defs)

lemma example_NextStep:
  "\<exists>p' st. NextStep planner0 nsn0 src0 False ispec0 cspec0 status0 = Returns (p', Selected (FirstSeen st)) \<and>
     ShortName (Metaa.ID (Meta st)) = ''AKSPool.k''"
  by (simp add: example_defs planner_defs)

text \<open>
  C1. Whenever the persisted status holds an entry whose state is \<open>Error\<close>, \<open>NextStep\<close>
  leaves through its error gate and returns \<open>(nil, nil)\<close>, whatever the planner, the
  sourcer, the destroy flag, the specs and the other entries are; the planner is unchanged.
\<close>

theorem NextStep_error_gate:
  assumes "map_of (Steps status) n = Some s" and "StepStatus.State s = StateError"
  shows "NextStep p nsn src destroy ispec cspec status = Returns (p, ErrorGate) \<and>
         NextStepResult p nsn src destroy ispec cspec status = Returns (None, None)"
proof -
  from assms have "n \<in> set (stepFilter status StateError)"
    by (auto simp: stepFilter_iff)
  then have "stepFilter status StateError \<noteq> []" by auto
  then have "NextStep p nsn src destroy ispec cspec status = Returns (p, ErrorGate)"
    by (simp add: NextStep_def)
  then show ?thesis
    by (simp add: NextStepResult_def)
qed

theorem NextStep_error_gate_witness:
  "map_of (Steps statusError) ''AKSPool.k'' = Some \<lparr>StepStatus.Hash = ''3'', StepStatus.State = StateError, StepStatus.Msg = ''upgrade failed''\<rparr> \<and>
   NextStep planner0 nsn0 src0 False ispec0 cspec0 statusError = Returns (planner0, ErrorGate) \<and>
   NextStepResult planner0 nsn0 src0 False ispec0 cspec0 statusError = Returns (None, None)"
proof -
  have h: "map_of (Steps statusError) ''AKSPool.k'' =
             Some \<lparr>StepStatus.Hash = ''3'', StepStatus.State = StateError, StepStatus.Msg = ''upgrade failed''\<rparr>"
    by (simp add: statusError_def)
  show ?thesis
    using h NextStep_error_gate [OF h, of planner0 nsn0 src0 False ispec0 cspec0] by simp
qed

text \<open>
  C2, as the code has it. Take a status with no \<open>Error\<close> and no \<open>Running\<close> entry, and let
  \<open>NextStep\<close> get its plan built (the secrets resolve, \<open>buildPlan\<close> returns true). Then
  the plan in memory is the plan just built, in the order of its construction, with the steps of the allowed types;
  \<open>NextStep\<close> returns the first step of it that is not up to date (no entry under its short
  name, or an entry with another hash), passing over every step that is up to date, and
  returns \<open>(nil, nil)\<close> when every step is up to date.
\<close>

theorem NextStep_selects_first_stale:
  assumes "stepFilter status StateError = []"
    and "stepFilter status StateRunning = []"
    and "vaultInfraValues p ispec = Inr ispec'"
    and "buildPlan p nsn src destroy ispec' cspec = Returns (p', True)"
  shows "\<exists>built.
     (if destroy then Returns (buildDestroyPlan p nsn src ispec' cspec)
      else buildCreatePlan p nsn src ispec' cspec) = Returns (built, True) \<and>
     currentPlans p' nsn = Some (planFilter built (AllowedStepTypes p)) \<and>
     NextStepResult p nsn src destroy ispec cspec status =
       Returns (find (\<lambda>st. \<not> upToDate (Steps status) st) (planFilter built (AllowedStepTypes p)), None)"
proof -
  from buildPlan_True [OF assms(4)] obtain built where
    b: "(if destroy then Returns (buildDestroyPlan p nsn src ispec' cspec)
         else buildCreatePlan p nsn src ispec' cspec) = Returns (built, True)"
    and p': "p' = p\<lparr>currentPlans := (currentPlans p)(nsn \<mapsto> planFilter built (AllowedStepTypes p))\<rparr>"
    by blast
  from p' have cur: "currentPlans p' nsn = Some (planFilter built (AllowedStepTypes p))"
    by simp
  have noerr: "\<And>n s. map_of (Steps status) n = Some s \<Longrightarrow> StepStatus.State s \<noteq> StateError"
    using stepFilter_Nil [OF assms(1)] by blast
  have "NextStep p nsn src destroy ispec cspec status =
          Returns (p', Selected (walk (Steps status) (planFilter built (AllowedStepTypes p))))"
    using assms cur by (simp add: NextStep_def selectStep_def currentPlan_def)
  then have "NextStepResult p nsn src destroy ispec cspec status =
          Returns (find (\<lambda>st. \<not> upToDate (Steps status) st) (planFilter built (AllowedStepTypes p)), None)"
    by (simp add: NextStepResult_def selectReturn_walk [OF noerr])
  with b cur show ?thesis by blast
qed

theorem NextStep_selects_first_stale_witness:
  "stepFilter status0 StateError = [] \<and> stepFilter status0 StateRunning = [] \<and>
   vaultInfraValues planner0 ispec0 = Inr ispec0 \<and>
   (\<exists>p' built. buildPlan planner0 nsn0 src0 False ispec0 cspec0 = Returns (p', True) \<and>
      buildCreatePlan planner0 nsn0 src0 ispec0 cspec0 = Returns (built, True) \<and>
      currentPlans p' nsn0 = Some (planFilter built (AllowedStepTypes planner0)) \<and>
      NextStepResult planner0 nsn0 src0 False ispec0 cspec0 status0 =
        Returns (find (\<lambda>st. \<not> upToDate (Steps status0) st) (planFilter built (AllowedStepTypes planner0)), None))"
proof -
  from example_buildPlan obtain p' where
    b: "buildPlan planner0 nsn0 src0 False ispec0 cspec0 = Returns (p', True)" by blast
  from NextStep_selects_first_stale [OF example_no_error example_no_running example_vault b]
  show ?thesis
    using example_no_error example_no_running example_vault b by auto
qed

text \<open>
  C2 as it is stated conditions on the status alone. With no \<open>Error\<close> and no \<open>Running\<close>
  entry and a secret that does not resolve, \<open>NextStep\<close> builds no plan and walks none: it
  returns the error of the secret store, which is neither a step nor \<open>(nil, nil)\<close>, and the
  planner holds no plan for the environment afterwards.
\<close>

theorem NextStep_selects_first_stale_counterexample:
  "stepFilter status0 StateError = [] \<and> stepFilter status0 StateRunning = [] \<and>
   NextStep plannerNoVault nsn0 src0 False ispec0 cspec0 status0 =
     Returns (plannerNoVault, VaultFailed (VaultRef ''secret not found'')) \<and>
   currentPlans plannerNoVault nsn0 = None \<and>
   NextStepResult plannerNoVault nsn0 src0 False ispec0 cspec0 status0 =
     Returns (None, Some (VaultRef ''secret not found'')) \<and>
   NextStepResult plannerNoVault nsn0 src0 False ispec0 cspec0 status0 \<noteq> Returns (None, None)"
  by (simp add: example_defs planner_defs)

text \<open>
  C7, as the code has it. With the infrastructure workspace available and its hash not
  empty, \<open>buildDestroyPlan\<close> returns exactly one step, a \<open>DestroyStep\<close> whose hash is
  \<open>hash(tfw.Hash)\<close>. With the workspace missing or its hash empty, \<open>buildDestroyPlan\<close> and
  \<open>buildPlan\<close> report not ready and leave the planner as it is, and \<open>NextStep\<close> returns
  \<open>(nil, nil)\<close> provided it gets as far as building the plan: the secrets resolve, and no
  \<open>Running\<close> entry is answered from the plan in memory.
\<close>

theorem destroy_plan:
  "(src nsn [] = Some tfw \<and> Workspace.Hash tfw \<noteq> [] \<longrightarrow>
      (\<exists>d. buildDestroyPlan p nsn src ispec' cspec = ([Destroy d], True) \<and>
           Metaa.Hash d = hash p [HString (Workspace.Hash tfw)] \<and>
           ID.Type (Metaa.ID d) = TypeDestroy)) \<and>
   (src nsn [] = None \<or> (\<exists>w. src nsn [] = Some w \<and> Workspace.Hash w = []) \<longrightarrow>
      buildDestroyPlan p nsn src ispec' cspec = ([], False) \<and>
      buildPlan p nsn src True ispec' cspec = Returns (p, False) \<and>
      (vaultInfraValues p ispec = Inr ispec' \<and>
       (stepFilter status StateRunning = [] \<or>
        currentPlanStep p nsn (hd (stepFilter status StateRunning)) = None) \<longrightarrow>
         NextStepResult p nsn src True ispec cspec status = Returns (None, None)))"
proof (intro conjI impI)
  assume "src nsn [] = Some tfw \<and> Workspace.Hash tfw \<noteq> []"
  then show "\<exists>d. buildDestroyPlan p nsn src ispec' cspec = ([Destroy d], True) \<and>
           Metaa.Hash d = hash p [HString (Workspace.Hash tfw)] \<and>
           ID.Type (Metaa.ID d) = TypeDestroy"
    by (simp add: buildDestroyPlan_def Let_def stepMeta_def Metaa.defs)
next
  assume missing: "src nsn [] = None \<or> (\<exists>w. src nsn [] = Some w \<and> Workspace.Hash w = [])"
  then show d: "buildDestroyPlan p nsn src ispec' cspec = ([], False)"
    by (auto simp: buildDestroyPlan_def)
  then show b: "buildPlan p nsn src True ispec' cspec = Returns (p, False)"
    by (simp add: buildPlan_def)
  assume reach: "vaultInfraValues p ispec = Inr ispec' \<and>
       (stepFilter status StateRunning = [] \<or>
        currentPlanStep p nsn (hd (stepFilter status StateRunning)) = None)"
  show "NextStepResult p nsn src True ispec cspec status = Returns (None, None)"
  proof (cases "stepFilter status StateError = []")
    case False
    then show ?thesis by (simp add: NextStepResult_def NextStep_def)
  next
    case True
    with reach b show ?thesis
      by (auto simp: NextStepResult_def NextStep_def Let_def)
  qed
qed

theorem destroy_plan_witness:
  "src0 nsn0 [] = Some \<lparr>Path = ''/ws'', Workspace.Hash = ''abc'', Synced = True\<rparr> \<and>
   Workspace.Hash \<lparr>Path = ''/ws'', Workspace.Hash = ''abc'', Synced = True\<rparr> \<noteq> [] \<and>
   (\<exists>d. buildDestroyPlan planner0 nsn0 src0 ispec0 cspec0 = ([Destroy d], True) \<and>
        Metaa.Hash d = hash planner0 [HString ''abc''] \<and> ID.Type (Metaa.ID d) = TypeDestroy) \<and>
   srcNone nsn0 [] = None \<and>
   vaultInfraValues planner0 ispec0 = Inr ispec0 \<and>
   stepFilter status0 StateRunning = [] \<and>
   buildDestroyPlan planner0 nsn0 srcNone ispec0 cspec0 = ([], False) \<and>
   buildPlan planner0 nsn0 srcNone True ispec0 cspec0 = Returns (planner0, False) \<and>
   NextStepResult planner0 nsn0 srcNone True ispec0 cspec0 status0 = Returns (None, None)"
proof -
  have a: "src0 nsn0 [] = Some \<lparr>Path = ''/ws'', Workspace.Hash = ''abc'', Synced = True\<rparr>"
    by (simp add: src0_def)
  have b: "srcNone nsn0 [] = None"
    by (simp add: srcNone_def)
  show ?thesis
    using a b example_vault example_no_running
      destroy_plan [of src0 nsn0 "\<lparr>Path = ''/ws'', Workspace.Hash = ''abc'', Synced = True\<rparr>"
        planner0 ispec0 cspec0 ispec0 status0]
      destroy_plan [of srcNone nsn0 "\<lparr>Path = ''/ws'', Workspace.Hash = ''abc'', Synced = True\<rparr>"
        planner0 ispec0 cspec0 ispec0 status0]
    by simp
qed

text \<open>
  The sentence of C7 on \<open>NextStep\<close> does not hold without that proviso: with the workspace
  missing and a secret that does not resolve, \<open>NextStep\<close> returns the error of the secret
  store and not \<open>(nil, nil)\<close>.
\<close>

theorem destroy_not_ready_counterexample:
  "srcNone nsn0 [] = None \<and>
   NextStepResult plannerNoVault nsn0 srcNone True ispec0 cspec0 status0 =
     Returns (None, Some (VaultRef ''secret not found'')) \<and>
   NextStepResult plannerNoVault nsn0 srcNone True ispec0 cspec0 status0 \<noteq> Returns (None, None)"
  by (simp add: example_defs planner_defs)

text \<open>
  C9. When \<open>NextStep\<close> leaves through its call of \<open>selectStep\<close>, no entry of the status is in
  state \<open>Error\<close>; what it returns is what \<open>selectStep\<close> returns on the planner with the rebuilt
  plan; and \<open>selectStep\<close> left neither through its refusal to retry an errored step nor for
  want of a plan: it returns a step (seen for the first time, or with a hash that differs)
  or the \<open>(nil, nil)\<close> of the end of the walk.
\<close>

theorem selectStep_from_NextStep:
  assumes "NextStep p nsn src destroy ispec cspec status = Returns (p', Selected x)"
  shows "stepFilter status StateError = [] \<and>
         (\<forall>n s. map_of (Steps status) n = Some s \<longrightarrow> StepStatus.State s \<noteq> StateError) \<and>
         x = selectStep p' nsn status \<and>
         x \<noteq> NoRetryBudget \<and>
         ((\<exists>st. (x = FirstSeen st \<or> x = HashDiffers st) \<and> selectReturn x = (Some st, None)) \<or>
          (x = EndOfWalk \<and> selectReturn x = (None, None)))"
proof -
  from assms have gate: "stepFilter status StateError = []"
    by (simp add: NextStep_def split: if_splits)
  then have noerr: "\<And>n s. map_of (Steps status) n = Some s \<Longrightarrow> StepStatus.State s \<noteq> StateError"
    using stepFilter_Nil by blast
  from assms gate obtain ispec' where
    b: "buildPlan p nsn src destroy ispec' cspec = Returns (p', True)"
    and x: "x = selectStep p' nsn status"
    by (auto simp: NextStep_def Let_def split: option.splits sum.splits outcome.splits if_splits)
  from buildPlan_True [OF b] obtain pl where cur: "currentPlans p' nsn = Some pl"
    by auto
  from x cur have w: "x = walk (Steps status) pl"
    by (simp add: selectStep_def currentPlan_def)
  have wf: "walk (Steps status) pl =
     (case find (\<lambda>st. \<not> upToDate (Steps status) st) pl of
        None \<Rightarrow> EndOfWalk
      | Some st \<Rightarrow>
          if map_of (Steps status) (ShortName (Metaa.ID (Meta st))) = None then FirstSeen st
          else HashDiffers st)"
    by (rule walk_find [OF noerr])
  have "x \<noteq> NoRetryBudget \<and>
        ((\<exists>st. (x = FirstSeen st \<or> x = HashDiffers st) \<and> selectReturn x = (Some st, None)) \<or>
         (x = EndOfWalk \<and> selectReturn x = (None, None)))"
    by (cases "find (\<lambda>st. \<not> upToDate (Steps status) st) pl") (simp_all add: w wf)
  with gate noerr x show ?thesis by blast
qed

theorem selectStep_from_NextStep_witness:
  "\<exists>p' st. NextStep planner0 nsn0 src0 False ispec0 cspec0 status0 = Returns (p', Selected (FirstSeen st)) \<and>
     stepFilter status0 StateError = [] \<and>
     FirstSeen st = selectStep p' nsn0 status0 \<and>
     selectReturn (FirstSeen st) = (Some st, None)"
proof -
  from example_NextStep obtain p' st where
    n: "NextStep planner0 nsn0 src0 False ispec0 cspec0 status0 = Returns (p', Selected (FirstSeen st))"
    by blast
  have r: "stepFilter status0 StateError = [] \<and> FirstSeen st = selectStep p' nsn0 status0"
    using selectStep_from_NextStep [OF n] by blast
  have s: "selectReturn (FirstSeen st) = (Some st, None)"
    by simp
  from n r s show ?thesis by blast
qed

text \<open>
  C10. On the empty environment name \<open>prefixedClusterName\<close> panics with a slice bound out
  of range; on any other it returns the last byte of the environment name, the resource,
  \<open>001\<close>, the environment name, a dash and the name.
\<close>

theorem prefixedClusterName_total_on_nonempty:
  "prefixedClusterName resource [] name = Panics SliceBoundsOutOfRange \<and>
   (env \<noteq> [] \<longrightarrow> prefixedClusterName resource env name =
      Returns ([last env] @ resource @ ''001'' @ env @ ''-'' @ name))"
proof -
  have "env \<noteq> [] \<Longrightarrow> drop (length env - 1) env = [last env]"
    by (cases env rule: rev_cases) auto
  then show ?thesis
    by (auto simp: prefixedClusterName_def Let_def)
qed

theorem prefixedClusterName_total_on_nonempty_witness:
  "prefixedClusterName ''aks'' [] ''k'' = Panics SliceBoundsOutOfRange \<and>
   ''prod'' \<noteq> [] \<and>
   prefixedClusterName ''aks'' ''prod'' ''k'' = Returns ''daks001prod-k''"
  using prefixedClusterName_total_on_nonempty [of "''aks''" "''k''" "''prod''"]
  by simp

section \<open>Facts about the terraform steps\<close>

lemmas step_defs = InfraStep_Execute_def infraPlan_def infraApply_def DestroyStep_Execute_def
  infraEnv_def writeText_def writeEnv_def terraformEnviron_def wait_def rangeMap_def
  Join_def Clean_def showInt_def digit_def Let_def

lemmas step_example_defs = world_def infraStep0_def destroyStep0_def records0_def sp0_def
  nsn0_def ispec0_def cspec0_def stepMeta_def Metaa.defs InfraStep.defs DestroyStep.defs

lemma startApplyCalls_append:
  "startApplyCalls (evs @ evs') = startApplyCalls evs @ startApplyCalls evs'"
  by (induction evs rule: startApplyCalls.induct) simp_all

lemma writes_append: "writes (evs @ evs') = writes evs @ writes evs'"
  by (induction evs rule: writes.induct) simp_all

lemma startApplyCalls_writeText: "startApplyCalls (writeText text dir name) = []"
  by (simp add: writeText_def Let_def)

lemma startApplyCalls_writeEnv: "startApplyCalls (writeEnv w env dir name) = []"
  by (simp add: writeEnv_def Let_def startApplyCalls_writeText)

lemma drain_final: "snd (drain i ch final) = (if ch = [] then final else Some (last ch))"
  by (induction ch arbitrary: final) (simp_all add: split_beta Let_def)

text \<open>
  Up to the call of \<open>Plan\<close>: when the templates expand, the login succeeds and \<open>init\<close>
  reports no error, \<open>Execute\<close> goes on with the plan part, and nothing so far called
  \<open>StartApply\<close>.
\<close>

lemma Execute_reaches_plan:
  assumes "ExpandAll w (InfraStep.SourcePath st) ''.tmplt'' (InfraStep.Values st) = None"
    and "Login w = Inr sp"
    and "TFResult.Errors (Init w (infraEnv w env st sp) (InfraStep.SourcePath st)) = []"
  shows "\<exists>evs. startApplyCalls evs = [] \<and>
     InfraStep_Execute w env st =
       infraPlan w (infraEnv w env st sp)
         (st\<lparr>Metaa.State := StateRunning, Metaa.Msg := ''terraform init''\<rparr>) evs"
proof -
  let ?st = "st\<lparr>Metaa.State := StateRunning, Metaa.Msg := ''terraform init''\<rparr>"
  let ?evs = "[Update (Infra ?st)] @
     writeEnv w (terraformEnviron sp
        (StateSpec.Access (InfraSpec.State (InfraValues.Infra (InfraStep.Values st)))))
       (InfraStep.SourcePath st) ''infra.env'' @
     [CallInit (infraEnv w env st sp) (InfraStep.SourcePath st)] @
     writeText (TFResult.Text (Init w (infraEnv w env st sp) (InfraStep.SourcePath st)))
       (InfraStep.SourcePath st) ''init.txt''"
  have "startApplyCalls ?evs = []"
    by (simp add: startApplyCalls_append startApplyCalls_writeText startApplyCalls_writeEnv)
  moreover have "InfraStep_Execute w env st = infraPlan w (infraEnv w env st sp) ?st ?evs"
    using assms by (simp add: InfraStep_Execute_def infraEnv_def Let_def)
  ultimately show ?thesis by blast
qed

text \<open>The plan part when the plan has no error and all three counts are zero.\<close>

lemma infraPlan_nothing_to_do:
  assumes "Plan w env (InfraStep.SourcePath st) = tfr" and "TFResult.Errors tfr = []"
    and "PlanAdded tfr = 0" and "PlanChanged tfr = 0" and "PlanDeleted tfr = 0"
    and "startApplyCalls evs = []"
  shows "\<exists>evs' st'. infraPlan w env st evs = (evs', st', Returns True) \<and>
     startApplyCalls evs' = [] \<and> Metaa.State st' = StateReady \<and>
     Metaa.Msg st' = ''terraform plan: nothing to do'' \<and>
     last evs' = Update (Infra st')"
  using assms
  by (simp add: infraPlan_def Let_def startApplyCalls_append startApplyCalls_writeText)

text \<open>
  The apply part. A step that is not \<open>Ready\<close> when it starts the apply is \<open>Ready\<close> afterwards
  exactly when the apply succeeded, and that is when \<open>Execute\<close> returns true.
\<close>

lemma infraApply_ready_iff:
  assumes "Metaa.State st \<noteq> StateReady"
  shows "(Metaa.State (fst (snd (infraApply w env st tfr evs))) = StateReady \<longleftrightarrow>
            applySucceeded w env (InfraStep.SourcePath st)) \<and>
         (snd (snd (infraApply w env st tfr evs)) = Returns True \<longleftrightarrow>
            applySucceeded w env (InfraStep.SourcePath st))"
proof (cases "StartApply w env (InfraStep.SourcePath st)")
  case (Inl err)
  then show ?thesis
    by (simp add: infraApply_def applySucceeded_def Let_def)
next
  case (Inr r)
  obtain cmd ch where r: "r = (cmd, ch)" by (cases r)
  obtain infos final where d: "drain (Metaa.ID st) ch None = (infos, final)"
    by (cases "drain (Metaa.ID st) ch None")
  from drain_final [of "Metaa.ID st" ch None] d
  have final: "final = (if ch = [] then None else Some (last ch))" by simp
  show ?thesis
  proof (cases "ch = []")
    case True
    with Inr r d final assms show ?thesis
      by (simp add: infraApply_def applySucceeded_def Let_def)
  next
    case False
    with Inr r d final assms show ?thesis
      by (simp add: infraApply_def applySucceeded_def Let_def)
  qed
qed

lemma infraApply_no_record:
  assumes "StartApply w env (InfraStep.SourcePath st) = Inr (cmd, [])"
  shows "snd (snd (infraApply w env st tfr evs)) = Panics NilPointerDereference \<and>
         Metaa.State (fst (snd (infraApply w env st tfr evs))) = Metaa.State st"
  using assms by (simp add: infraApply_def Let_def)

lemma infraPlan_ready_iff:
  assumes "Plan w env (InfraStep.SourcePath st) = tfr" and "TFResult.Errors tfr = []"
    and "b = Budget (InfraValues.Infra (InfraStep.Values st))"
    and "0 \<le> PlanAdded tfr" and "0 \<le> PlanChanged tfr" and "0 \<le> PlanDeleted tfr"
    and "Metaa.State st \<noteq> StateReady"
  shows "(Metaa.State (fst (snd (infraPlan w env st evs))) = StateReady \<longleftrightarrow>
            PlanAdded tfr + PlanChanged tfr + PlanDeleted tfr = 0 \<or>
            (PlanAdded tfr + PlanChanged tfr + PlanDeleted tfr > 0 \<and>
             withinLimit (PlanAdded tfr) (AddLimit b) \<and>
             withinLimit (PlanChanged tfr) (UpdateLimit b) \<and>
             withinLimit (PlanDeleted tfr) (DeleteLimit b) \<and>
             applySucceeded w env (InfraStep.SourcePath st))) \<and>
         (snd (snd (infraPlan w env st evs)) = Returns True \<longleftrightarrow>
            Metaa.State (fst (snd (infraPlan w env st evs))) = StateReady)"
proof (cases "PlanAdded tfr = 0 \<and> PlanChanged tfr = 0 \<and> PlanDeleted tfr = 0")
  case True
  with assms show ?thesis
    by (simp add: infraPlan_def Let_def)
next
  case False
  with assms have pos: "PlanAdded tfr + PlanChanged tfr + PlanDeleted tfr > 0"
    by arith
  let ?st = "st\<lparr>Metaa.Msg := ''terraform plan'', InfraStep.Added := PlanAdded tfr,
                 InfraStep.Changed := PlanChanged tfr, InfraStep.Deleted := PlanDeleted tfr\<rparr>"
  have st: "Metaa.State ?st \<noteq> StateReady" "InfraStep.SourcePath ?st = InfraStep.SourcePath st"
    using assms(7) by simp_all
  note ap = infraApply_ready_iff [OF st(1), of w env tfr, unfolded st(2)]
  show ?thesis
  proof (cases "withinLimit (PlanAdded tfr) (AddLimit b) \<and>
                withinLimit (PlanChanged tfr) (UpdateLimit b) \<and>
                withinLimit (PlanDeleted tfr) (DeleteLimit b)")
    case True
    with False pos assms(1,2,3) ap show ?thesis
      by (auto simp: infraPlan_def Let_def withinLimit_def split: option.splits)
  next
    case within: False
    with False pos assms(1,2,3) show ?thesis
      by (auto simp: infraPlan_def Let_def withinLimit_def split: option.splits)
  qed
qed

lemma infraPlan_budget_exceeded:
  assumes "Plan w env (InfraStep.SourcePath st) = tfr" and "TFResult.Errors tfr = []"
    and "b = Budget (InfraValues.Infra (InfraStep.Values st))"
    and "(\<exists>m. AddLimit b = Some m \<and> int m < PlanAdded tfr) \<or>
         (\<exists>m. UpdateLimit b = Some m \<and> int m < PlanChanged tfr) \<or>
         (\<exists>m. DeleteLimit b = Some m \<and> int m < PlanDeleted tfr)"
    and "startApplyCalls evs = []"
  shows "\<exists>evs' st'. infraPlan w env st evs = (evs', st', Returns False) \<and>
     Metaa.State st' = StateError \<and> startApplyCalls evs' = [] \<and> last evs' = Update (Infra st') \<and>
     ((\<exists>m. AddLimit b = Some m \<and> int m < PlanAdded tfr \<and>
           Metaa.Msg st' = ''plan added '' @ showInt (PlanAdded tfr) @
                           '' exceeds addLimit '' @ showInt (int m)) \<or>
      (\<exists>m. UpdateLimit b = Some m \<and> int m < PlanChanged tfr \<and>
           Metaa.Msg st' = ''plan changed '' @ showInt (PlanChanged tfr) @
                           '' exceeds updateLimit '' @ showInt (int m)) \<or>
      (\<exists>m. DeleteLimit b = Some m \<and> int m < PlanDeleted tfr \<and>
           Metaa.Msg st' = ''plan deleted '' @ showInt (PlanDeleted tfr) @
                           '' exceeds deleteLimit '' @ showInt (int m)))"
proof -
  from assms(4) have some: "\<not> (PlanAdded tfr = 0 \<and> PlanChanged tfr = 0 \<and> PlanDeleted tfr = 0)"
    by auto
  show ?thesis
  proof (cases "\<exists>m. AddLimit b = Some m \<and> int m < PlanAdded tfr")
    case True
    with assms(1,2,3,5) some show ?thesis
      by (auto simp: infraPlan_def Let_def startApplyCalls_append startApplyCalls_writeText)
  next
    case noAdd: False
    show ?thesis
    proof (cases "\<exists>m. UpdateLimit b = Some m \<and> int m < PlanChanged tfr")
      case True
      with noAdd assms(1,2,3,5) some show ?thesis
        by (auto simp: infraPlan_def Let_def startApplyCalls_append startApplyCalls_writeText)
    next
      case noUpdate: False
      with noAdd assms(4) have "\<exists>m. DeleteLimit b = Some m \<and> int m < PlanDeleted tfr"
        by blast
      with noAdd noUpdate assms(1,2,3,5) some show ?thesis
        by (auto simp: infraPlan_def Let_def startApplyCalls_append startApplyCalls_writeText)
    qed
  qed
qed

text \<open>
  C3, as the code has it. Take an execution of the Infra step in which terraform plan
  reports the counts \<open>a\<close>, \<open>c\<close>, \<open>d\<close> (the templates expand, the login succeeds, \<open>init\<close> and
  \<open>plan\<close> report no error), none of them negative. The step ends \<open>Ready\<close> exactly when
  \<open>a + c + d = 0\<close>, or \<open>a + c + d > 0\<close>, every count is within its limit and the apply
  succeeded; and \<open>Execute\<close> returns true exactly when the step ends \<open>Ready\<close>.
\<close>

theorem Execute_ready_iff:
  assumes "ExpandAll w (InfraStep.SourcePath st) ''.tmplt'' (InfraStep.Values st) = None"
    and "Login w = Inr sp"
    and "TFResult.Errors (Init w (infraEnv w env st sp) (InfraStep.SourcePath st)) = []"
    and "Plan w (infraEnv w env st sp) (InfraStep.SourcePath st) = tfr"
    and "TFResult.Errors tfr = []"
    and "b = Budget (InfraValues.Infra (InfraStep.Values st))"
    and "0 \<le> PlanAdded tfr" and "0 \<le> PlanChanged tfr" and "0 \<le> PlanDeleted tfr"
  shows "(Metaa.State (fst (snd (InfraStep_Execute w env st))) = StateReady \<longleftrightarrow>
            PlanAdded tfr + PlanChanged tfr + PlanDeleted tfr = 0 \<or>
            (PlanAdded tfr + PlanChanged tfr + PlanDeleted tfr > 0 \<and>
             withinLimit (PlanAdded tfr) (AddLimit b) \<and>
             withinLimit (PlanChanged tfr) (UpdateLimit b) \<and>
             withinLimit (PlanDeleted tfr) (DeleteLimit b) \<and>
             applySucceeded w (infraEnv w env st sp) (InfraStep.SourcePath st))) \<and>
         (snd (snd (InfraStep_Execute w env st)) = Returns True \<longleftrightarrow>
            Metaa.State (fst (snd (InfraStep_Execute w env st))) = StateReady)"
proof -
  let ?st = "st\<lparr>Metaa.State := StateRunning, Metaa.Msg := ''terraform init''\<rparr>"
  from Execute_reaches_plan [OF assms(1,2,3)] obtain evs where
    e: "InfraStep_Execute w env st = infraPlan w (infraEnv w env st sp) ?st evs"
    by blast
  have "Plan w (infraEnv w env st sp) (InfraStep.SourcePath ?st) = tfr"
    and "b = Budget (InfraValues.Infra (InfraStep.Values ?st))"
    and "Metaa.State ?st \<noteq> StateReady"
    using assms(4,6) by simp_all
  from infraPlan_ready_iff [OF this(1) assms(5) this(2) assms(7,8,9) this(3), of evs]
  show ?thesis
    by (simp add: e)
qed

lemma world_simps:
  "ExpandAll (world a c d ch) dir suffix vals = None"
  "Login (world a c d ch) = Inr sp0"
  "TFResult.Errors (Init (world a c d ch) env dir) = []"
  "TFResult.Errors (Plan (world a c d ch) env dir) = []"
  "PlanAdded (Plan (world a c d ch) env dir) = a"
  "PlanChanged (Plan (world a c d ch) env dir) = c"
  "PlanDeleted (Plan (world a c d ch) env dir) = d"
  "StartApply (world a c d ch) env dir = Inr (None, ch)"
  "StartDestroy (world a c d ch) env dir = Inr (None, ch)"
  by (simp_all add: world_def)

lemma infraStep0_budget:
  "Budget (InfraValues.Infra (InfraStep.Values infraStep0)) =
     \<lparr>AddLimit = None, UpdateLimit = None, DeleteLimit = Some 2\<rparr>"
  by (simp add: infraStep0_def ispec0_def InfraStep.defs Metaa.defs)

theorem Execute_ready_iff_witness:
  "ExpandAll (world 1 0 1 records0) (InfraStep.SourcePath infraStep0) ''.tmplt''
     (InfraStep.Values infraStep0) = None \<and>
   Login (world 1 0 1 records0) = Inr sp0 \<and>
   TFResult.Errors (Init (world 1 0 1 records0) (infraEnv (world 1 0 1 records0) [] infraStep0 sp0)
     (InfraStep.SourcePath infraStep0)) = [] \<and>
   TFResult.Errors (Plan (world 1 0 1 records0) (infraEnv (world 1 0 1 records0) [] infraStep0 sp0)
     (InfraStep.SourcePath infraStep0)) = [] \<and>
   applySucceeded (world 1 0 1 records0) (infraEnv (world 1 0 1 records0) [] infraStep0 sp0)
     (InfraStep.SourcePath infraStep0) \<and>
   Metaa.State (fst (snd (InfraStep_Execute (world 1 0 1 records0) [] infraStep0))) = StateReady \<and>
   snd (snd (InfraStep_Execute (world 1 0 1 records0) [] infraStep0)) = Returns True"
proof -
  have ok: "applySucceeded (world 1 0 1 records0) (infraEnv (world 1 0 1 records0) [] infraStep0 sp0)
     (InfraStep.SourcePath infraStep0)"
    by (simp add: applySucceeded_def world_simps records0_def)
  from Execute_ready_iff [of "world 1 0 1 records0" infraStep0 sp0 "[]", OF world_simps(1,2,3) refl
      world_simps(4) refl]
  show ?thesis
    using ok by (simp add: world_simps infraStep0_budget withinLimit_def)
qed

text \<open>
  C3 as it is stated makes \<open>a + c + d > 0\<close> necessary for \<open>Ready\<close>. With a plan of no
  additions, changes or deletions the step ends \<open>Ready\<close> all the same.
\<close>

theorem Execute_ready_iff_counterexample:
  "\<not> (PlanAdded (Plan (world 0 0 0 records0) (infraEnv (world 0 0 0 records0) [] infraStep0 sp0)
          (InfraStep.SourcePath infraStep0)) +
       PlanChanged (Plan (world 0 0 0 records0) (infraEnv (world 0 0 0 records0) [] infraStep0 sp0)
          (InfraStep.SourcePath infraStep0)) +
       PlanDeleted (Plan (world 0 0 0 records0) (infraEnv (world 0 0 0 records0) [] infraStep0 sp0)
          (InfraStep.SourcePath infraStep0)) > 0) \<and>
   Metaa.State (fst (snd (InfraStep_Execute (world 0 0 0 records0) [] infraStep0))) = StateReady \<and>
   snd (snd (InfraStep_Execute (world 0 0 0 records0) [] infraStep0)) = Returns True"
  by (simp add: world_simps InfraStep_Execute_def infraPlan_def Let_def)

text \<open>
  C5. Take an execution of the Infra step in which terraform plan reports its counts and one
  of them exceeds its limit, the limit not being nil. Then \<open>Execute\<close> returns false and leaves
  the step in state \<open>Error\<close>; the message names a limit that is exceeded, with the count
  \<open>N\<close> and the limit \<open>M\<close>, and reads \<open>plan added N exceeds addLimit M\<close>,
  \<open>plan changed N exceeds updateLimit M\<close> or \<open>plan deleted N exceeds deleteLimit M\<close>; the
  last event is the update that reports it, and \<open>StartApply\<close> is not called.
\<close>

theorem Execute_budget_exceeded:
  assumes "ExpandAll w (InfraStep.SourcePath st) ''.tmplt'' (InfraStep.Values st) = None"
    and "Login w = Inr sp"
    and "TFResult.Errors (Init w (infraEnv w env st sp) (InfraStep.SourcePath st)) = []"
    and "Plan w (infraEnv w env st sp) (InfraStep.SourcePath st) = tfr"
    and "TFResult.Errors tfr = []"
    and "b = Budget (InfraValues.Infra (InfraStep.Values st))"
    and "(\<exists>m. AddLimit b = Some m \<and> int m < PlanAdded tfr) \<or>
         (\<exists>m. UpdateLimit b = Some m \<and> int m < PlanChanged tfr) \<or>
         (\<exists>m. DeleteLimit b = Some m \<and> int m < PlanDeleted tfr)"
  shows "\<exists>evs st'. InfraStep_Execute w env st = (evs, st', Returns False) \<and>
     Metaa.State st' = StateError \<and> startApplyCalls evs = [] \<and> last evs = Update (Infra st') \<and>
     ((\<exists>m. AddLimit b = Some m \<and> int m < PlanAdded tfr \<and>
           Metaa.Msg st' = ''plan added '' @ showInt (PlanAdded tfr) @
                           '' exceeds addLimit '' @ showInt (int m)) \<or>
      (\<exists>m. UpdateLimit b = Some m \<and> int m < PlanChanged tfr \<and>
           Metaa.Msg st' = ''plan changed '' @ showInt (PlanChanged tfr) @
                           '' exceeds updateLimit '' @ showInt (int m)) \<or>
      (\<exists>m. DeleteLimit b = Some m \<and> int m < PlanDeleted tfr \<and>
           Metaa.Msg st' = ''plan deleted '' @ showInt (PlanDeleted tfr) @
                           '' exceeds deleteLimit '' @ showInt (int m)))"
proof -
  let ?st = "st\<lparr>Metaa.State := StateRunning, Metaa.Msg := ''terraform init''\<rparr>"
  from Execute_reaches_plan [OF assms(1,2,3)] obtain evs where
    n: "startApplyCalls evs = []"
    and e: "InfraStep_Execute w env st = infraPlan w (infraEnv w env st sp) ?st evs"
    by blast
  have "Plan w (infraEnv w env st sp) (InfraStep.SourcePath ?st) = tfr"
    and "b = Budget (InfraValues.Infra (InfraStep.Values ?st))"
    using assms(4,6) by simp_all
  from infraPlan_budget_exceeded [OF this(1) assms(5) this(2) assms(7) n]
  show ?thesis
    by (simp add: e)
qed

theorem Execute_budget_exceeded_witness:
  "DeleteLimit (Budget (InfraValues.Infra (InfraStep.Values infraStep0))) = Some 2 \<and>
   int 2 < PlanDeleted (Plan (world 1 0 5 records0) (infraEnv (world 1 0 5 records0) [] infraStep0 sp0)
     (InfraStep.SourcePath infraStep0)) \<and>
   (\<exists>evs st'. InfraStep_Execute (world 1 0 5 records0) [] infraStep0 = (evs, st', Returns False) \<and>
      Metaa.State st' = StateError \<and> startApplyCalls evs = [] \<and> last evs = Update (Infra st') \<and>
      Metaa.Msg st' = ''plan deleted 5 exceeds deleteLimit 2'')"
proof -
  have five: "showInt 5 = ''5''" and two: "showInt 2 = ''2''"
    by (simp_all add: showInt_def digit_def)
  from Execute_budget_exceeded [of "world 1 0 5 records0" infraStep0 sp0 "[]",
      OF world_simps(1,2,3) refl world_simps(4) refl]
  show ?thesis
    by (simp add: world_simps infraStep0_budget five two)
qed

text \<open>
  C6. Take an execution of the Infra step in which the templates expand, the login
  succeeds, \<open>init\<close> reports no error and \<open>plan\<close> reports no error and the counts 0, 0, 0.
  Then \<open>Execute\<close> returns true and leaves the step in state \<open>Ready\<close> with the message
  \<open>terraform plan: nothing to do\<close>; the last event is the update that reports it, and
  \<open>StartApply\<close> is not called.
\<close>

theorem Execute_nothing_to_do:
  assumes "ExpandAll w (InfraStep.SourcePath st) ''.tmplt'' (InfraStep.Values st) = None"
    and "Login w = Inr sp"
    and "TFResult.Errors (Init w (infraEnv w env st sp) (InfraStep.SourcePath st)) = []"
    and "Plan w (infraEnv w env st sp) (InfraStep.SourcePath st) = tfr"
    and "TFResult.Errors tfr = []"
    and "PlanAdded tfr = 0" and "PlanChanged tfr = 0" and "PlanDeleted tfr = 0"
  shows "\<exists>evs st'. InfraStep_Execute w env st = (evs, st', Returns True) \<and>
     Metaa.State st' = StateReady \<and> Metaa.Msg st' = ''terraform plan: nothing to do'' \<and>
     startApplyCalls evs = [] \<and> last evs = Update (Infra st')"
proof -
  let ?st = "st\<lparr>Metaa.State := StateRunning, Metaa.Msg := ''terraform init''\<rparr>"
  from Execute_reaches_plan [OF assms(1,2,3)] obtain evs where
    n: "startApplyCalls evs = []"
    and e: "InfraStep_Execute w env st = infraPlan w (infraEnv w env st sp) ?st evs"
    by blast
  have "Plan w (infraEnv w env st sp) (InfraStep.SourcePath ?st) = tfr"
    using assms(4) by simp
  from infraPlan_nothing_to_do [OF this assms(5,6,7,8) n]
  show ?thesis
    by (auto simp: e)
qed

theorem Execute_nothing_to_do_witness:
  "ExpandAll (world 0 0 0 records0) (InfraStep.SourcePath infraStep0) ''.tmplt''
     (InfraStep.Values infraStep0) = None \<and>
   Login (world 0 0 0 records0) = Inr sp0 \<and>
   PlanAdded (Plan (world 0 0 0 records0) (infraEnv (world 0 0 0 records0) [] infraStep0 sp0)
     (InfraStep.SourcePath infraStep0)) = 0 \<and>
   (\<exists>evs st'. InfraStep_Execute (world 0 0 0 records0) [] infraStep0 = (evs, st', Returns True) \<and>
      Metaa.State st' = StateReady \<and> Metaa.Msg st' = ''terraform plan: nothing to do'' \<and>
      startApplyCalls evs = [] \<and> last evs = Update (Infra st'))"
  using Execute_nothing_to_do [of "world 0 0 0 records0" infraStep0 sp0 "[]",
      OF world_simps(1,2,3) refl world_simps(4,5,6,7)]
  by (simp add: world_simps)

text \<open>
  The same reading of the channel in the Destroy step: when \<open>StartDestroy\<close> answers a channel
  that closes without a record, \<open>Execute\<close> panics and the step stays \<open>Running\<close>.
\<close>

lemma DestroyStep_no_record:
  assumes "ExpandAll w (DestroyStep.SourcePath st) ''.tmplt'' (DestroyStep.Values st) = None"
    and "TFResult.Errors (Init w env (DestroyStep.SourcePath st)) = []"
    and "StartDestroy w env (DestroyStep.SourcePath st) = Inr (cmd, [])"
  shows "snd (snd (DestroyStep_Execute w env st)) = Panics NilPointerDereference \<and>
         Metaa.State (fst (snd (DestroyStep_Execute w env st))) = StateRunning"
  using assms by (simp add: DestroyStep_Execute_def Let_def)

text \<open>
  C4 on the code. The apply (the destroy) is started and its channel closes without a
  record. \<open>Execute\<close> then reads \<open>last.Text\<close> through the nil pointer, before it tests
  \<open>last == nil\<close>: it panics. The step is still \<open>Running\<close>, the update sink has seen three
  updates, all of them \<open>Running\<close>, and none carries the message
  \<open>did not receive response from terraform apply\<close> (\<open>destroy\<close>).
\<close>

theorem no_record_panics:
  "snd (snd (InfraStep_Execute (world 1 0 1 []) [] infraStep0)) = Panics NilPointerDereference \<and>
   Metaa.State (fst (snd (InfraStep_Execute (world 1 0 1 []) [] infraStep0))) = StateRunning \<and>
   map (\<lambda>s. (Metaa.State (Meta s), Metaa.Msg (Meta s)))
     (updates (fst (InfraStep_Execute (world 1 0 1 []) [] infraStep0))) =
     [(StateRunning, ''terraform init''), (StateRunning, ''terraform plan''),
      (StateRunning, ''terraform apply adds=1 changes=0 deletes=1'')] \<and>
   snd (snd (DestroyStep_Execute (world 1 0 1 []) [] destroyStep0)) = Panics NilPointerDereference \<and>
   Metaa.State (fst (snd (DestroyStep_Execute (world 1 0 1 []) [] destroyStep0))) = StateRunning \<and>
   map (\<lambda>s. (Metaa.State (Meta s), Metaa.Msg (Meta s)))
     (updates (fst (DestroyStep_Execute (world 1 0 1 []) [] destroyStep0))) =
     [(StateRunning, ''terraform init''), (StateRunning, ''terraform destroy''),
      (StateRunning, ''terraform destroy'')]"
  by (simp add: step_defs step_example_defs)

text \<open>
  C8 on the code. The Destroy step calls \<open>writeText(st.SourcePath, "init.txt", tfr.Text, log)\<close>
  where the parameters are \<open>(text, dir, name)\<close>: the file it writes is named after the output
  of terraform, lies under the directory \<open>init.txt/log\<close> (\<open>destroy.txt/log\<close>) relative to the
  working directory of the process, and holds the source path. Nothing is written under
  the source path. The Infra step, on the same collaborators, writes \<open>log/init.txt\<close> and
  \<open>log/apply.txt\<close> under the source path, with the output as their text.
\<close>

theorem destroy_log_files:
  "DestroyStep.SourcePath destroyStep0 = ''/ws/infra'' \<and>
   writes (fst (DestroyStep_Execute (world 1 0 1 records0) [] destroyStep0)) =
     [(''init.txt/log/Terraform has been successfully initialized!'', ''/ws/infra''),
      (''destroy.txt/log/Apply complete!'', ''/ws/infra'')] \<and>
   snd (snd (DestroyStep_Execute (world 1 0 1 records0) [] destroyStep0)) = Returns True \<and>
   writes (fst (InfraStep_Execute (world 1 0 1 records0) [] infraStep0)) =
     [(''/ws/infra/log/infra.env'',
       ''export ARM_CLIENT_ID=id ARM_CLIENT_SECRET=secret ARM_TENANT_ID=tenant ARM_ACCESS_KEY=key''),
      (''/ws/infra/log/init.txt'', ''Terraform has been successfully initialized!''),
      (''/ws/infra/log/plan.txt'', ''Plan:''),
      (''/ws/infra/log/apply.txt'', ''Apply complete!'')]"
  by (simp add: step_defs step_example_defs)

text \<open>
  And on every execution of the Destroy step that gets to \<open>init\<close>: the first file written
  has the path \<open>Join(Join("init.txt", "log"), tfr.Text)\<close> and the source path as its text.
\<close>

lemma DestroyStep_init_write:
  assumes "ExpandAll w (DestroyStep.SourcePath st) ''.tmplt'' (DestroyStep.Values st) = None"
  shows "\<exists>rest. writes (fst (DestroyStep_Execute w env st)) =
     (Join [Join [''init.txt'', ''log''], TFResult.Text (Init w env (DestroyStep.SourcePath st))],
      DestroyStep.SourcePath st) # rest"
  using assms
  by (auto simp: DestroyStep_Execute_def Let_def writeText_def writes_append
      split: sum.splits option.splits prod.splits)

end
